theory Spec2Isabelle
  imports Main "HOL-Library.AList"
begin

section \<open>Python values\<close>

text \<open>
  The values that flow through \<^verbatim>\<open>pyvyos/device.py\<close>: \<^verbatim>\<open>None\<close>, booleans, integers,
  strings, lists and dictionaries with string keys. A dictionary is an association list
  in insertion order, as a Python \<^verbatim>\<open>dict\<close> is; \<open>AList.update\<close> is \<^verbatim>\<open>d[k] = v\<close>
  (in place when the key is there, at the end otherwise), \<open>AList.delete\<close> is
  \<^verbatim>\<open>del d[k]\<close> and \<open>map_of\<close> reads a key; a well-formed dictionary has each key once.
  Strings are lists of code points below 256; floating point numbers are outside the
  model.
\<close>

datatype pyval =
    PNone
  | PBool bool
  | PInt int
  | PStr string
  | PList "pyval list"
  | PDict "(string \<times> pyval) list"

text \<open>The exceptions that the modelled code can meet.\<close>

datatype exn =
    TypeError
  | KeyError string
  | ConnectionError string
  | ReadTimeout string

text \<open>Truth value of a Python object, as \<^verbatim>\<open>not path\<close> and \<^verbatim>\<open>if current_command['path']\<close> test it.\<close>

fun truthy :: "pyval \<Rightarrow> bool" where
  "truthy PNone = False"
| "truthy (PBool b) = b"
| "truthy (PInt i) = (i \<noteq> 0)"
| "truthy (PStr s) = (s \<noteq> [])"
| "truthy (PList xs) = (xs \<noteq> [])"
| "truthy (PDict kvs) = (kvs \<noteq> [])"

text \<open>\<^verbatim>\<open>isinstance(p, list)\<close>.\<close>

fun is_list :: "pyval \<Rightarrow> bool" where
  "is_list (PList xs) = True"
| "is_list v = False"

text \<open>
  \<^verbatim>\<open>for p in path\<close>: a list yields its elements, a string its characters as one-character
  strings, a dictionary its keys; the other values are not iterable.
\<close>

fun py_iter :: "pyval \<Rightarrow> exn + pyval list" where
  "py_iter (PList xs) = Inr xs"
| "py_iter (PStr s) = Inr (map (\<lambda>c. PStr [c]) s)"
| "py_iter (PDict kvs) = Inr (map (\<lambda>kv. PStr (fst kv)) kvs)"
| "py_iter v = Inl TypeError"

text \<open>
  \<^verbatim>\<open>obj[k]\<close> for a string \<open>k\<close>: a dictionary gives the value or raises \<^verbatim>\<open>KeyError\<close>;
  lists and strings take integer indices only and the remaining values are not
  subscriptable, a \<^verbatim>\<open>TypeError\<close> in each case.
\<close>

fun getitem :: "pyval \<Rightarrow> string \<Rightarrow> exn + pyval" where
  "getitem (PDict kvs) k = (case map_of kvs k of None \<Rightarrow> Inl (KeyError k) | Some v \<Rightarrow> Inr v)"
| "getitem v k = Inl TypeError"

text \<open>\<^verbatim>\<open>obj[k] = v\<close> for a string \<open>k\<close>: only a dictionary accepts it.\<close>

fun setitem :: "pyval \<Rightarrow> string \<Rightarrow> pyval \<Rightarrow> exn + pyval" where
  "setitem (PDict kvs) k v = Inr (PDict (AList.update k v kvs))"
| "setitem d k v = Inl TypeError"

text \<open>\<^verbatim>\<open>x == True\<close>: \<^verbatim>\<open>bool\<close> is a subclass of \<^verbatim>\<open>int\<close>, so \<^verbatim>\<open>1 == True\<close> holds as well.\<close>

fun eq_True :: "pyval \<Rightarrow> bool" where
  "eq_True (PBool b) = b"
| "eq_True (PInt i) = (i = 1)"
| "eq_True v = False"

section \<open>Rendering: \<^verbatim>\<open>str\<close> of an integer and \<^verbatim>\<open>json.dumps\<close>\<close>

definition digit_char :: "nat \<Rightarrow> char" where
  "digit_char n = ''0123456789abcdef'' ! n"

function str_nat :: "nat \<Rightarrow> string" where
  "str_nat n = (if n < 10 then [digit_char n] else str_nat (n div 10) @ [digit_char (n mod 10)])"
  by pat_completeness auto
termination
  by (relation "measure id") auto

declare str_nat.simps [simp del]

definition str_int :: "int \<Rightarrow> string" where
  "str_int i = (if i < 0 then ''-'' @ str_nat (nat (- i)) else str_nat (nat i))"

text \<open>
  \<^verbatim>\<open>json.dumps\<close> with its defaults (\<^verbatim>\<open>ensure_ascii=True\<close>, separators \<^verbatim>\<open>", "\<close> and
  \<^verbatim>\<open>": "\<close>). Inside a string the quote and the backslash get a backslash, the control
  characters BS, FF, LF, CR and TAB their short escapes, and every other character
  outside the range from space to tilde the four-digit escape (backslash, \<^verbatim>\<open>u00\<close> and two
  lower-case hexadecimal digits).
\<close>

definition json_escape :: "char \<Rightarrow> string" where
  "json_escape c =
     (let n = (of_char c :: nat) in
      if n = 0x22 then [CHR 0x5C, CHR 0x22]
      else if n = 0x5C then [CHR 0x5C, CHR 0x5C]
      else if n = 0x08 then [CHR 0x5C, CHR ''b'']
      else if n = 0x0C then [CHR 0x5C, CHR ''f'']
      else if n = 0x0A then [CHR 0x5C, CHR ''n'']
      else if n = 0x0D then [CHR 0x5C, CHR ''r'']
      else if n = 0x09 then [CHR 0x5C, CHR ''t'']
      else if n < 0x20 \<or> 0x7E < n
        then [CHR 0x5C, CHR ''u'', CHR ''0'', CHR ''0'', digit_char (n div 16), digit_char (n mod 16)]
      else [c])"

definition json_string :: "string \<Rightarrow> string" where
  "json_string s = [CHR 0x22] @ concat (map json_escape s) @ [CHR 0x22]"

fun dumps :: "pyval \<Rightarrow> string"
  and dumps_items :: "pyval list \<Rightarrow> string"
  and dumps_pairs :: "(string \<times> pyval) list \<Rightarrow> string"
where
  "dumps PNone = ''null''"
| "dumps (PBool b) = (if b then ''true'' else ''false'')"
| "dumps (PInt i) = str_int i"
| "dumps (PStr s) = json_string s"
| "dumps (PList xs) = ''['' @ dumps_items xs @ '']''"
| "dumps (PDict kvs) = ''{'' @ dumps_pairs kvs @ ''}''"
| "dumps_items [] = []"
| "dumps_items [x] = dumps x"
| "dumps_items (x # y # ys) = dumps x @ '', '' @ dumps_items (y # ys)"
| "dumps_pairs [] = []"
| "dumps_pairs [(k, v)] = json_string k @ '': '' @ dumps v"
| "dumps_pairs ((k, v) # kv # kvs) = json_string k @ '': '' @ dumps v @ '', '' @ dumps_pairs (kv # kvs)"

section \<open>The device and its payload builder\<close>

record VyDevice =
  hostname :: string
  apikey :: string
  protocol :: string
  port :: int
  verify :: bool
  timeout :: int

text \<open>The constructor with its defaults: \<^verbatim>\<open>protocol='https', port=443, verify=True, timeout=10\<close>.\<close>

definition vy_device :: "string \<Rightarrow> string \<Rightarrow> VyDevice" where
  "vy_device h k =
     \<lparr>hostname = h, apikey = k, protocol = ''https'', port = 443, verify = True, timeout = 10\<rparr>"

text \<open>\<^verbatim>\<open>f"{self.protocol}://{self.hostname}:{self.port}/{command}"\<close>\<close>

definition get_url :: "VyDevice \<Rightarrow> string \<Rightarrow> string" where
  "get_url self command =
     protocol self @ ''://'' @ hostname self @ '':'' @ str_int (port self) @ ''/'' @ command"

text \<open>An operation request \<^verbatim>\<open>{'op': op, 'path': path}\<close>.\<close>

definition op_request :: "string \<Rightarrow> pyval \<Rightarrow> pyval" where
  "op_request op path = PDict [(''op'', PStr op), (''path'', path)]"

text \<open>
  The loop of the general branch of \<^verbatim>\<open>_get_payload\<close>. The state is \<open>data\<close>, the list of
  the commands appended so far, and \<open>cur\<close>, the list \<^verbatim>\<open>current_command['path']\<close>. A nested
  list \<open>p\<close> closes the current command when its path is non-empty and becomes the path of
  the next one; any other element is appended to the current path. The source binds the
  new path to the list object \<open>p\<close> of the caller and appends to it in place; the model
  works on values. The two agree on \<open>data\<close> as long as no such list object is met a second
  time, as a later element of the path or inside one: a statement about the batch
  therefore speaks of segments that hold no list, or has a conclusion that appending to
  a list cannot change.
\<close>

fun scan :: "string \<Rightarrow> pyval list \<Rightarrow> pyval list \<Rightarrow> pyval list \<Rightarrow> pyval list \<times> pyval list" where
  "scan op [] data cur = (data, cur)"
| "scan op (PList p # ps) data cur =
     scan op ps (if cur \<noteq> [] then data @ [op_request op (PList cur)] else data) p"
| "scan op (x # ps) data cur = scan op ps data (cur @ [x])"

text \<open>The \<^verbatim>\<open>else\<close> branch as a whole: the loop, then the last command when its path is non-empty.\<close>

definition batch :: "string \<Rightarrow> pyval list \<Rightarrow> pyval list" where
  "batch op ps =
     (case scan op ps [] [] of
        (data, cur) \<Rightarrow> if cur \<noteq> [] then data @ [op_request op (PList cur)] else data)"

text \<open>The \<^verbatim>\<open>elif\<close> and \<^verbatim>\<open>else\<close> branches up to the serialisation: the value of \<open>data\<close>.\<close>

fun build_data :: "string \<Rightarrow> pyval \<Rightarrow> exn + pyval" where
  "build_data op (PList [x]) = Inr (op_request op x)"
| "build_data op path =
     (case py_iter path of Inl e \<Rightarrow> Inl e | Inr ps \<Rightarrow> Inr (PList (batch op ps)))"

text \<open>
  \<^verbatim>\<open>_get_payload\<close>. With a false \<open>path\<close> the three optional fields go into \<open>data\<close> before it
  is serialised, and the payload is returned at once. Otherwise \<open>data\<close> is the command of
  the single element, or the batch; it is serialised into the payload first, and only
  then \<open>file\<close> and \<open>name\<close> are stored into \<open>data\<close> (which raises \<^verbatim>\<open>TypeError\<close> when \<open>data\<close> is the
  list of a batch) and \<open>url\<close> into the payload.
\<close>

definition get_payload ::
  "VyDevice \<Rightarrow> string \<Rightarrow> pyval \<Rightarrow> pyval \<Rightarrow> pyval \<Rightarrow> pyval \<Rightarrow> exn + (string \<times> pyval) list" where
  "get_payload self op path file url name =
     (if \<not> truthy path then
        let data = [(''op'', PStr op), (''path'', path)];
            data = (if file \<noteq> PNone then AList.update ''file'' file data else data);
            data = (if url \<noteq> PNone then AList.update ''url'' url data else data);
            data = (if name \<noteq> PNone then AList.update ''name'' name data else data);
            payload = [(''data'', PStr (dumps (PDict data))), (''key'', PStr (apikey self))]
        in Inr payload
      else
        (case build_data op path of
           Inl e \<Rightarrow> Inl e
         | Inr data \<Rightarrow>
             (let payload = [(''data'', PStr (dumps data)), (''key'', PStr (apikey self))] in
              (case (if file \<noteq> PNone then setitem data ''file'' file else Inr data) of
                 Inl e \<Rightarrow> Inl e
               | Inr data1 \<Rightarrow>
                   (let payload = (if url \<noteq> PNone then AList.update ''url'' url payload else payload) in
                    (case (if name \<noteq> PNone then setitem data1 ''name'' name else Inr data1) of
                       Inl e \<Rightarrow> Inl e
                     | Inr data2 \<Rightarrow> Inr payload))))))"

section \<open>The request executor\<close>

text \<open>
  The network is the environment of the program: \<^verbatim>\<open>requests.post\<close> is a parameter that
  maps the address, the flag \<open>verify\<close>, the payload and the timeout to an outcome. The
  outcome is an exception, or a response with its status code and its body, for which
  \<^verbatim>\<open>resp.json()\<close> either raises \<^verbatim>\<open>JSONDecodeError\<close> or returns the decoded value. Among
  the exceptions of \<^verbatim>\<open>requests\<close>, \<open>ConnectionError\<close> stands for that class and its subclasses
  (a timeout while connecting is one), \<open>ReadTimeout\<close> for the timeout while waiting for the
  answer, which is no subclass of it.
\<close>

datatype http_body = NotJson | Json pyval

datatype post_result = Resp int http_body | Raise exn

type_synonym transport = "string \<Rightarrow> bool \<Rightarrow> (string \<times> pyval) list \<Rightarrow> int \<Rightarrow> post_result"

record ApiResponse =
  status :: int
  request :: "(string \<times> pyval) list"
  result :: pyval
  error :: pyval

text \<open>\<^verbatim>\<open>del d[k]\<close> raises \<^verbatim>\<open>KeyError\<close> when the key is absent.\<close>

definition delitem :: "(string \<times> pyval) list \<Rightarrow> string \<Rightarrow> exn + (string \<times> pyval) list" where
  "delitem d k = (if map_of d k = None then Inl (KeyError k) else Inr (AList.delete k d))"

text \<open>
  The body of the outer \<^verbatim>\<open>try\<close> of \<^verbatim>\<open>_api_request\<close>, from the response on: the triple
  \<open>(status, result, error)\<close> it leaves, or the exception that escapes the inner \<^verbatim>\<open>try\<close>,
  whose only handler is the one for \<^verbatim>\<open>JSONDecodeError\<close>.
\<close>

definition classify :: "int \<Rightarrow> http_body \<Rightarrow> exn + (int \<times> pyval \<times> pyval)" where
  "classify status_code body =
     (if status_code = 200 then
        (case body of
           NotJson \<Rightarrow> Inr (status_code, PDict [], PStr ''json decode error'')
         | Json resp_decoded \<Rightarrow>
             (case getitem resp_decoded ''success'' of
                Inl e \<Rightarrow> Inl e
              | Inr success \<Rightarrow>
                  if eq_True success then
                    (case getitem resp_decoded ''data'' of
                       Inl e \<Rightarrow> Inl e
                     | Inr d \<Rightarrow> Inr (status_code, d, PBool False))
                  else
                    (case getitem resp_decoded ''error'' of
                       Inl e \<Rightarrow> Inl e
                     | Inr err \<Rightarrow> Inr (status_code, PDict [], err))))
      else Inr (status_code, PDict [], PStr ''http error''))"

text \<open>
  The outer \<^verbatim>\<open>try\<close> with its handler: a \<^verbatim>\<open>ConnectionError\<close> becomes status 0 and the
  error string, \<open>result\<close> still being the empty dictionary; every other exception leaves
  the function.
\<close>

definition attempt :: "post_result \<Rightarrow> exn + (int \<times> pyval \<times> pyval)" where
  "attempt r =
     (case (case r of Raise e \<Rightarrow> Inl e | Resp status_code body \<Rightarrow> classify status_code body) of
        Inl (ConnectionError msg) \<Rightarrow> Inr (0, PDict [], PStr (''connection error: '' @ msg))
      | Inl e \<Rightarrow> Inl e
      | Inr t \<Rightarrow> Inr t)"

text \<open>
  \<^verbatim>\<open>_api_request\<close>. Its first statement assigns the address to the variable \<open>url\<close>, which
  is also the parameter \<open>url\<close>: the \<open>let\<close> below shadows the parameter in the same way, so
  the payload builder and \<^verbatim>\<open>requests.post\<close> both get the address.
\<close>

definition api_request ::
  "VyDevice \<Rightarrow> transport \<Rightarrow> string \<Rightarrow> string \<Rightarrow> pyval \<Rightarrow> pyval \<Rightarrow> pyval \<Rightarrow> pyval \<Rightarrow> exn + ApiResponse" where
  "api_request self post command op path file url name =
     (let url = get_url self command in
      (case get_payload self op path file (PStr url) name of
         Inl e \<Rightarrow> Inl e
       | Inr payload \<Rightarrow>
           (case attempt (post url (verify self) payload (timeout self)) of
              Inl e \<Rightarrow> Inl e
            | Inr (st, res, err) \<Rightarrow>
                (case delitem payload ''key'' of
                   Inl e \<Rightarrow> Inl e
                 | Inr payload \<Rightarrow>
                     Inr \<lparr>status = st, request = payload, result = res, error = err\<rparr>))))"

section \<open>The operations\<close>

text \<open>
  Each wrapper passes its own arguments by keyword and leaves the others at the defaults
  of \<^verbatim>\<open>_api_request\<close>: \<^verbatim>\<open>path=[]\<close> and \<^verbatim>\<open>None\<close> for \<open>file\<close>, \<open>url\<close> and \<open>name\<close>.
\<close>

definition retrieve_show_config :: "VyDevice \<Rightarrow> transport \<Rightarrow> pyval \<Rightarrow> exn + ApiResponse" where
  "retrieve_show_config self post path =
     api_request self post ''retrieve'' ''showConfig'' path PNone PNone PNone"

definition retrieve_return_values :: "VyDevice \<Rightarrow> transport \<Rightarrow> pyval \<Rightarrow> exn + ApiResponse" where
  "retrieve_return_values self post path =
     api_request self post ''retrieve'' ''returnValues'' path PNone PNone PNone"

definition retrieve_exists :: "VyDevice \<Rightarrow> transport \<Rightarrow> pyval \<Rightarrow> exn + ApiResponse" where
  "retrieve_exists self post path =
     api_request self post ''retrieve'' ''exists'' path PNone PNone PNone"

definition reset :: "VyDevice \<Rightarrow> transport \<Rightarrow> pyval \<Rightarrow> exn + ApiResponse" where
  "reset self post path = api_request self post ''reset'' ''reset'' path PNone PNone PNone"

definition image_add :: "VyDevice \<Rightarrow> transport \<Rightarrow> pyval \<Rightarrow> exn + ApiResponse" where
  "image_add self post url = api_request self post ''image'' ''add'' (PList []) PNone url PNone"

definition image_delete :: "VyDevice \<Rightarrow> transport \<Rightarrow> pyval \<Rightarrow> exn + ApiResponse" where
  "image_delete self post name =
     api_request self post ''image'' ''delete'' (PList []) PNone PNone name"


definition generate :: "VyDevice \<Rightarrow> transport \<Rightarrow> pyval \<Rightarrow> exn + ApiResponse" where
  "generate self post path =
     api_request self post ''generate'' ''generate'' path PNone PNone PNone"


definition configure_delete :: "VyDevice \<Rightarrow> transport \<Rightarrow> pyval \<Rightarrow> exn + ApiResponse" where
  "configure_delete self post path =
     api_request self post ''configure'' ''delete'' path PNone PNone PNone"

definition config_file_save :: "VyDevice \<Rightarrow> transport \<Rightarrow> pyval \<Rightarrow> exn + ApiResponse" where
  "config_file_save self post file =
     api_request self post ''config-file'' ''save'' (PList []) file PNone PNone"

definition config_file_load :: "VyDevice \<Rightarrow> transport \<Rightarrow> pyval \<Rightarrow> exn + ApiResponse" where
  "config_file_load self post file =
     api_request self post ''config-file'' ''load'' (PList []) file PNone PNone"

definition reboot :: "VyDevice \<Rightarrow> transport \<Rightarrow> pyval \<Rightarrow> exn + ApiResponse" where
  "reboot self post path = api_request self post ''reboot'' ''reboot'' path PNone PNone PNone"

definition poweroff :: "VyDevice \<Rightarrow> transport \<Rightarrow> pyval \<Rightarrow> exn + ApiResponse" where
  "poweroff self post path =
     api_request self post ''poweroff'' ''poweroff'' path PNone PNone PNone"

text \<open>The default \<^verbatim>\<open>path=["now"]\<close> of \<^verbatim>\<open>reboot\<close> and \<^verbatim>\<open>poweroff\<close>.\<close>

definition now_path :: pyval where
  "now_path = PList [PStr ''now'']"

section \<open>Sample servers\<close>

text \<open>
  Outcomes of \<^verbatim>\<open>requests.post\<close> for the examples below, whatever is posted: the two
  answers and the refusals that the specification lists among its testable properties,
  an answer with status 200 whose JSON object has no field at all, and a server that
  accepts the connection and then stays silent.
\<close>

definition post_success :: transport where
  "post_success u v p t =
     Resp 200 (Json (PDict [(''success'', PBool True), (''data'', PDict [(''x'', PInt 1)])]))"

definition post_bad_path :: transport where
  "post_bad_path u v p t =
     Resp 200 (Json (PDict [(''success'', PBool False), (''error'', PStr ''bad path'')]))"

definition post_unavailable :: transport where
  "post_unavailable u v p t = Resp 503 NotJson"

definition post_refused :: transport where
  "post_refused u v p t = Raise (ConnectionError ''Connection refused'')"



section \<open>Notions used in the statements\<close>

text \<open>The batch whose requests have the given paths, in order.\<close>

definition requests_of :: "string \<Rightarrow> pyval list list \<Rightarrow> pyval list" where
  "requests_of op paths = map (\<lambda>q. op_request op (PList q)) paths"

text \<open>An operation request for \<open>op\<close>: a dictionary with that \<open>op\<close> and with a \<open>path\<close>.\<close>

fun is_request :: "string \<Rightarrow> pyval \<Rightarrow> bool" where
  "is_request op (PDict kvs) =
     (map_of kvs ''op'' = Some (PStr op) \<and> map_of kvs ''path'' \<noteq> None)"
| "is_request op v = False"

text \<open>
  The values that hold no list: whatever the loop appends in place, they are the same
  objects before and after.
\<close>

fun atom :: "pyval \<Rightarrow> bool" where
  "atom (PList xs) = False"
| "atom (PDict kvs) = False"
| "atom v = True"

section \<open>Facts about the scan and the payload\<close>

lemmas render = json_string_def json_escape_def op_request_def

lemmas run = get_payload_def batch_def vy_device_def get_url_def str_int_def str_nat.simps
  digit_char_def render

lemma scan_plain: "\<not> is_list x \<Longrightarrow> scan op (x # ps) data cur = scan op ps data (cur @ [x])"
  by (cases x) simp_all

lemma atom_not_list: "atom x \<Longrightarrow> \<not> is_list x"
  by (cases x) simp_all

lemma scan_flat:
  "\<forall>x\<in>set ps. \<not> is_list x \<Longrightarrow> scan op ps data cur = (data, cur @ ps)"
proof (induction ps arbitrary: cur)
  case Nil
  show ?case by simp
next
  case (Cons x ps)
  from Cons.prems have "\<not> is_list x" and rest: "\<forall>y\<in>set ps. \<not> is_list y" by simp_all
  then have "scan op (x # ps) data cur = scan op ps data (cur @ [x])" by (simp add: scan_plain)
  also have "\<dots> = (data, (cur @ [x]) @ ps)" using rest by (rule Cons.IH)
  finally show ?case by simp
qed

lemma batch_flat:
  "\<forall>x\<in>set ps. \<not> is_list x \<Longrightarrow> ps \<noteq> [] \<Longrightarrow> batch op ps = [op_request op (PList ps)]"
  by (simp add: batch_def scan_flat)

text \<open>The loop keeps the invariant that no request of \<open>data\<close> has an empty path.\<close>

lemma scan_nonempty:
  "scan op ps data cur = (data', cur') \<Longrightarrow> data = requests_of op paths \<Longrightarrow> [] \<notin> set paths
   \<Longrightarrow> \<exists>paths'. data' = requests_of op paths' \<and> [] \<notin> set paths'"
proof (induction op ps data cur arbitrary: paths rule: scan.induct)
  case (1 op data cur)
  then show ?case by auto
next
  case (2 op p ps data cur)
  show ?case
  proof (cases "cur = []")
    case True
    with 2 show ?thesis by simp
  next
    case False
    have "data @ [op_request op (PList cur)] = requests_of op (paths @ [cur])"
      using "2.prems"(2) by (simp add: requests_of_def)
    moreover have "[] \<notin> set (paths @ [cur])" using False "2.prems"(3) by auto
    ultimately show ?thesis using "2.IH" "2.prems"(1) False by (metis scan.simps(2))
  qed
qed (auto)

lemma batch_nonempty: "\<exists>paths. batch op ps = requests_of op paths \<and> [] \<notin> set paths"
proof -
  obtain data cur where s: "scan op ps [] [] = (data, cur)" by (cases "scan op ps [] []")
  have "[] = requests_of op []" by (simp add: requests_of_def)
  with s obtain paths where p: "data = requests_of op paths" "[] \<notin> set paths"
    using scan_nonempty by (metis empty_iff list.set(1))
  show ?thesis
  proof (cases "cur = []")
    case True
    with s p show ?thesis by (auto simp: batch_def)
  next
    case False
    have "data @ [op_request op (PList cur)] = requests_of op (paths @ [cur])"
      using p by (simp add: requests_of_def)
    moreover have "[] \<notin> set (paths @ [cur])" using False p by auto
    ultimately show ?thesis using s False by (auto simp: batch_def simp del: set_append)
  qed
qed

text \<open>The three branches of \<^verbatim>\<open>_get_payload\<close>, each with the payload it returns.\<close>

lemma build_data_cases:
  "(\<exists>x. path = PList [x] \<and> build_data op path = Inr (op_request op x))
   \<or> ((\<forall>x. path \<noteq> PList [x]) \<and>
       build_data op path =
         (case py_iter path of Inl e \<Rightarrow> Inl e | Inr ps \<Rightarrow> Inr (PList (batch op ps))))"
proof (cases path)
  case (PList xs)
  then show ?thesis
  proof (cases xs)
    case Nil
    with PList show ?thesis by simp
  next
    case (Cons y ys)
    with PList show ?thesis by (cases ys) simp_all
  qed
qed simp_all

lemma get_payload_empty:
  "\<not> truthy path \<Longrightarrow>
   get_payload self op path file url name =
     Inr [(''data'', PStr (dumps (PDict ([(''op'', PStr op), (''path'', path)]
            @ (if file \<noteq> PNone then [(''file'', file)] else [])
            @ (if url \<noteq> PNone then [(''url'', url)] else [])
            @ (if name \<noteq> PNone then [(''name'', name)] else []))))),
          (''key'', PStr (apikey self))]"
  by (simp add: get_payload_def)

lemma get_payload_single:
  "get_payload self op (PList [x]) file url name =
     Inr ([(''data'', PStr (dumps (op_request op x))), (''key'', PStr (apikey self))]
          @ (if url \<noteq> PNone then [(''url'', url)] else []))"
  by (simp add: get_payload_def op_request_def)

lemma get_payload_batch:
  "truthy path \<Longrightarrow> \<forall>x. path \<noteq> PList [x] \<Longrightarrow> py_iter path = Inr ps \<Longrightarrow>
   get_payload self op path file url name =
     (if file \<noteq> PNone \<or> name \<noteq> PNone then Inl TypeError
      else Inr ([(''data'', PStr (dumps (PList (batch op ps)))), (''key'', PStr (apikey self))]
                @ (if url \<noteq> PNone then [(''url'', url)] else [])))"
  using build_data_cases [of path op] by (auto simp: get_payload_def)

lemma get_payload_not_iterable:
  "truthy path \<Longrightarrow> py_iter path = Inl e \<Longrightarrow> get_payload self op path file url name = Inl e"
  using build_data_cases [of path op] by (auto simp: get_payload_def)

text \<open>Every payload that is returned has one of two forms.\<close>

lemma is_request_op_request: "is_request op (op_request op p)"
  by (simp add: op_request_def)

lemma list_all_batch: "list_all (is_request op) (batch op ps)"
proof -
  obtain paths where "batch op ps = requests_of op paths" using batch_nonempty by blast
  then show ?thesis by (simp add: requests_of_def list_all_iff is_request_op_request)
qed

lemma get_payload_Inr:
  assumes "get_payload self op path file url name = Inr payload"
  shows "\<exists>d. (is_request op d \<or> (\<exists>cs. d = PList cs \<and> list_all (is_request op) cs))
           \<and> (payload = [(''data'', PStr (dumps d)), (''key'', PStr (apikey self))]
              \<or> payload = [(''data'', PStr (dumps d)), (''key'', PStr (apikey self)), (''url'', url)])"
proof (cases "truthy path")
  case False
  let ?d = "PDict ([(''op'', PStr op), (''path'', path)]
            @ (if file \<noteq> PNone then [(''file'', file)] else [])
            @ (if url \<noteq> PNone then [(''url'', url)] else [])
            @ (if name \<noteq> PNone then [(''name'', name)] else []))"
  have "is_request op ?d" by simp
  moreover have "payload = [(''data'', PStr (dumps ?d)), (''key'', PStr (apikey self))]"
    using assms False get_payload_empty [of path self op "file" url name] by simp
  ultimately show ?thesis by blast
next
  case True
  show ?thesis
  proof (cases "\<exists>x. path = PList [x]")
    case True
    then obtain x where "path = PList [x]" by blast
    then have "payload = [(''data'', PStr (dumps (op_request op x))), (''key'', PStr (apikey self))]
               @ (if url \<noteq> PNone then [(''url'', url)] else [])"
      using assms get_payload_single [of self op x "file" url name] by simp
    then show ?thesis using is_request_op_request [of op x] by (cases "url = PNone") auto
  next
    case False
    then have ns: "\<forall>x. path \<noteq> PList [x]" by blast
    show ?thesis
    proof (cases "py_iter path")
      case (Inl e)
      then show ?thesis using assms True get_payload_not_iterable [of path e self op "file" url name] by simp
    next
      case (Inr ps)
      then have "payload = [(''data'', PStr (dumps (PList (batch op ps)))), (''key'', PStr (apikey self))]
               @ (if url \<noteq> PNone then [(''url'', url)] else [])"
        using assms True ns get_payload_batch [of path ps self op "file" url name]
        by (simp split: if_splits)
      then show ?thesis using list_all_batch [of op ps] by (cases "url = PNone") auto
    qed
  qed
qed


section \<open>Facts about the request executor\<close>

lemma get_payload_key:
  "get_payload self op path file url name = Inr payload \<Longrightarrow> map_of payload ''key'' = Some (PStr (apikey self))"
  using get_payload_Inr [of self op path "file" url name payload] by auto

lemma api_request_sent:
  assumes "get_payload self op path file (PStr (get_url self command)) name = Inr payload"
  shows "api_request self post command op path file url name =
     (case attempt (post (get_url self command) (verify self) payload (timeout self)) of
        Inl e \<Rightarrow> Inl e
      | Inr (st, res, err) \<Rightarrow>
          Inr \<lparr>status = st, request = AList.delete ''key'' payload, result = res, error = err\<rparr>)"
  using assms get_payload_key [OF assms]
  by (simp add: api_request_def delitem_def split: sum.splits prod.splits)

lemma api_request_not_sent:
  "get_payload self op path file (PStr (get_url self command)) name = Inl e \<Longrightarrow>
   api_request self post command op path file url name = Inl e"
  by (simp add: api_request_def)

lemma attempt_http_error:
  "code \<noteq> 200 \<Longrightarrow> attempt (Resp code body) = Inr (code, PDict [], PStr ''http error'')"
  by (simp add: attempt_def classify_def)


lemma attempt_success:
  "map_of kvs ''success'' = Some s \<Longrightarrow> eq_True s \<Longrightarrow> map_of kvs ''data'' = Some d \<Longrightarrow>
   attempt (Resp 200 (Json (PDict kvs))) = Inr (200, d, PBool False)"
  by (simp add: attempt_def classify_def)

lemma attempt_failure:
  "map_of kvs ''success'' = Some s \<Longrightarrow> \<not> eq_True s \<Longrightarrow> map_of kvs ''error'' = Some e \<Longrightarrow>
   attempt (Resp 200 (Json (PDict kvs))) = Inr (200, PDict [], e)"
  by (simp add: attempt_def classify_def)







section \<open>The payload builder on the shapes of a path\<close>

text \<open>
  Claim C1, as the code has it. For the path \<^verbatim>\<open>[a, [b,c], d, [e]]\<close>, where \<open>a\<close> and \<open>d\<close> are
  plain values that hold no list and \<open>b\<close>, \<open>c\<close>, \<open>e\<close> are strings, the payload builder
  produces the batch of three requests with the paths \<^verbatim>\<open>[a]\<close>, \<^verbatim>\<open>[b,c,d]\<close> and \<^verbatim>\<open>[e]\<close>, in
  that order, whatever \<open>url\<close> is: the nested list \<^verbatim>\<open>[b,c]\<close> closes the request of \<open>a\<close>, since
  the buffer is non-empty, and seeds the next path, and the plain segment \<open>d\<close> extends
  the path so seeded.
\<close>

theorem mixed_path_batch:
  assumes "atom a" and "atom d"
  shows "get_payload self op (PList [a, PList [PStr b, PStr c], d, PList [PStr e]]) PNone url PNone =
           Inr ([(''data'', PStr (dumps (PList [op_request op (PList [a]),
                                               op_request op (PList [PStr b, PStr c, d]),
                                               op_request op (PList [PStr e])]))),
                 (''key'', PStr (apikey self))]
                @ (if url \<noteq> PNone then [(''url'', url)] else []))"
proof -
  let ?ps = "[a, PList [PStr b, PStr c], d, PList [PStr e]]"
  from assms have "\<not> is_list a" and "\<not> is_list d" by (simp_all add: atom_not_list)
  then have "scan op ?ps [] [] =
          ([op_request op (PList [a]), op_request op (PList [PStr b, PStr c, d])], [PStr e])"
    by (simp add: scan_plain)
  then have "batch op ?ps =
          [op_request op (PList [a]), op_request op (PList [PStr b, PStr c, d]),
           op_request op (PList [PStr e])]"
    by (simp add: batch_def)
  then show ?thesis
    using get_payload_batch [of "PList ?ps" ?ps self op PNone url PNone]
    by simp
qed

theorem mixed_path_batch_witness:
  \<open>atom (PStr ''a'') \<and> atom (PStr ''d'')
   \<and> get_payload (vy_device ''h'' ''k'') ''delete''
      (PList [PStr ''a'', PList [PStr ''b'', PStr ''c''], PStr ''d'', PList [PStr ''e'']])
      PNone (PStr ''https://h:443/configure'') PNone
    = Inr [(''data'', PStr ''[{"op": "delete", "path": ["a"]}, {"op": "delete", "path": ["b", "c", "d"]}, {"op": "delete", "path": ["e"]}]''),
           (''key'', PStr ''k''), (''url'', PStr ''https://h:443/configure'')]\<close>
  using mixed_path_batch [where a = "PStr ''a''" and d = "PStr ''d''"
      and self = "vy_device ''h'' ''k''" and op = "''delete''"
      and b = "''b''" and c = "''c''" and e = "''e''" and url = "PStr ''https://h:443/configure''"]
  by (simp add: vy_device_def render)

text \<open>
  Claim C1 as stated fails: for \<^verbatim>\<open>['a', ['b','c'], 'd', ['e']]\<close> the serialised data is the
  batch of three requests below, which is not the serialisation of the four requests
  with the paths \<^verbatim>\<open>[a]\<close>, \<^verbatim>\<open>[b,c]\<close>, \<^verbatim>\<open>[d]\<close>, \<^verbatim>\<open>[e]\<close>.
\<close>

theorem mixed_path_four_requests_counterexample:
  \<open>get_payload (vy_device ''h'' ''k'') ''set''
      (PList [PStr ''a'', PList [PStr ''b'', PStr ''c''], PStr ''d'', PList [PStr ''e'']])
      PNone PNone PNone
    = Inr [(''data'', PStr ''[{"op": "set", "path": ["a"]}, {"op": "set", "path": ["b", "c", "d"]}, {"op": "set", "path": ["e"]}]''),
           (''key'', PStr ''k'')]
   \<and> ''[{"op": "set", "path": ["a"]}, {"op": "set", "path": ["b", "c", "d"]}, {"op": "set", "path": ["e"]}]''
    \<noteq> dumps (PList [op_request ''set'' (PList [PStr ''a'']),
                      op_request ''set'' (PList [PStr ''b'', PStr ''c'']),
                      op_request ''set'' (PList [PStr ''d'']),
                      op_request ''set'' (PList [PStr ''e''])])\<close>
  by (simp add: get_payload_def batch_def vy_device_def render)

text \<open>
  Claim C2, as the code has it. For a flat path of more than one segment, none of them a
  list, the serialised data is a batch holding exactly one operation request, whose path
  is the input sequence unchanged; it is the serialisation of an array, which differs
  from that of the request alone.
\<close>

theorem flat_path_one_request_batch:
  assumes "1 < length ps" and "\<forall>x\<in>set ps. \<not> is_list x"
  shows "get_payload self op (PList ps) PNone url PNone =
           Inr ([(''data'', PStr (dumps (PList [op_request op (PList ps)]))),
                 (''key'', PStr (apikey self))]
                @ (if url \<noteq> PNone then [(''url'', url)] else []))
         \<and> dumps (PList [op_request op (PList ps)]) \<noteq> dumps (op_request op (PList ps))"
proof
  from assms(1) have ne: "ps \<noteq> []" and "\<forall>x. PList ps \<noteq> PList [x]" by auto
  then have "get_payload self op (PList ps) PNone url PNone =
          Inr ([(''data'', PStr (dumps (PList (batch op ps)))), (''key'', PStr (apikey self))]
               @ (if url \<noteq> PNone then [(''url'', url)] else []))"
    using get_payload_batch [of "PList ps" ps self op PNone url PNone] by simp
  then show "get_payload self op (PList ps) PNone url PNone =
           Inr ([(''data'', PStr (dumps (PList [op_request op (PList ps)]))),
                 (''key'', PStr (apikey self))]
                @ (if url \<noteq> PNone then [(''url'', url)] else []))"
    using assms(2) ne by (simp add: batch_flat)
next
  show "dumps (PList [op_request op (PList ps)]) \<noteq> dumps (op_request op (PList ps))"
    by (simp add: op_request_def)
qed

theorem flat_path_one_request_batch_witness:
  \<open>1 < length [PStr ''interfaces'', PStr ''dummy'', PStr ''dum1'']
   \<and> get_payload (vy_device ''h'' ''k'') ''set''
        (PList [PStr ''interfaces'', PStr ''dummy'', PStr ''dum1'']) PNone PNone PNone
    = Inr [(''data'', PStr ''[{"op": "set", "path": ["interfaces", "dummy", "dum1"]}]''),
           (''key'', PStr ''k'')]\<close>
  using flat_path_one_request_batch [where ps = "[PStr ''interfaces'', PStr ''dummy'', PStr ''dum1'']"
      and self = "vy_device ''h'' ''k''" and op = "''set''" and url = PNone]
  by (simp add: vy_device_def render)

text \<open>
  Claim C2 as stated fails: for \<^verbatim>\<open>['a', 'b']\<close> the serialised data is an array of one
  request, not the single request object.
\<close>

theorem flat_path_single_object_counterexample:
  \<open>get_payload (vy_device ''h'' ''k'') ''set'' (PList [PStr ''a'', PStr ''b'']) PNone PNone PNone
    = Inr [(''data'', PStr ''[{"op": "set", "path": ["a", "b"]}]''), (''key'', PStr ''k'')]
   \<and> ''[{"op": "set", "path": ["a", "b"]}]''
    \<noteq> dumps (op_request ''set'' (PList [PStr ''a'', PStr ''b'']))\<close>
  by (simp add: get_payload_def batch_def vy_device_def render)

text \<open>
  Claim C9. For a path that is a list of exactly one element, the request's \<open>path\<close> is
  that element itself, a list or not, whatever \<open>file\<close>, \<open>url\<close> and \<open>name\<close> are. For
  \<^verbatim>\<open>["now"]\<close>, the default of \<^verbatim>\<open>reboot\<close> and \<^verbatim>\<open>poweroff\<close>, the serialised path is the bare
  string and not a list of one string.
\<close>

theorem single_element_path_unwrapped:
  \<open>get_payload self op (PList [x]) file url name =
     Inr ([(''data'', PStr (dumps (PDict [(''op'', PStr op), (''path'', x)]))),
           (''key'', PStr (apikey self))]
          @ (if url \<noteq> PNone then [(''url'', url)] else []))
   \<and> get_payload self ''reboot'' now_path PNone PNone PNone =
     Inr [(''data'', PStr ''{"op": "reboot", "path": "now"}''), (''key'', PStr (apikey self))]\<close>
proof
  show "get_payload self op (PList [x]) file url name =
     Inr ([(''data'', PStr (dumps (PDict [(''op'', PStr op), (''path'', x)]))),
           (''key'', PStr (apikey self))]
          @ (if url \<noteq> PNone then [(''url'', url)] else []))"
    using get_payload_single [of self op x "file" url name] by (simp add: op_request_def)
next
  have \<open>dumps (op_request ''reboot'' (PStr ''now'')) = ''{"op": "reboot", "path": "now"}''\<close>
    by (simp add: render)
  then show \<open>get_payload self ''reboot'' now_path PNone PNone PNone =
     Inr [(''data'', PStr ''{"op": "reboot", "path": "now"}''), (''key'', PStr (apikey self))]\<close>
    using get_payload_single [of self "''reboot''" "PStr ''now''" PNone PNone PNone]
    by (simp add: now_path_def)
qed

text \<open>
  Claim C8, as the code has it. In the general branch a request is appended to the batch
  only when its path is non-empty, at a boundary as well as after the scan, so every
  request of the serialised batch has a non-empty path: an empty nested list never
  yields a batch entry with an empty path. (As the sole element of the path an empty
  nested list is the path of the single request, which is no batch: see claim C9.)
\<close>

theorem batch_paths_nonempty:
  assumes "truthy path" and "\<forall>x. path \<noteq> PList [x]"
    and "get_payload self op path file url name = Inr payload"
  shows "\<exists>paths. [] \<notin> set paths
           \<and> map_of payload ''data'' = Some (PStr (dumps (PList (requests_of op paths))))"
proof (cases "py_iter path")
  case (Inl e)
  then show ?thesis using assms get_payload_not_iterable [of path e self op "file" url name] by simp
next
  case (Inr ps)
  then have "payload = [(''data'', PStr (dumps (PList (batch op ps)))), (''key'', PStr (apikey self))]
           @ (if url \<noteq> PNone then [(''url'', url)] else [])"
    using assms get_payload_batch [of path ps self op "file" url name] by (simp split: if_splits)
  then have "map_of payload ''data'' = Some (PStr (dumps (PList (batch op ps))))" by simp
  then show ?thesis using batch_nonempty [of op ps] by metis
qed

theorem batch_paths_nonempty_witness:
  \<open>truthy (PList [PStr ''a'', PList [], PStr ''b'', PList []])
   \<and> get_payload (vy_device ''h'' ''k'') ''set''
       (PList [PStr ''a'', PList [], PStr ''b'', PList []]) PNone PNone PNone
     = Inr [(''data'', PStr ''[{"op": "set", "path": ["a"]}, {"op": "set", "path": ["b"]}]''),
            (''key'', PStr ''k'')]
   \<and> (\<exists>paths. [] \<notin> set paths
         \<and> ''[{"op": "set", "path": ["a"]}, {"op": "set", "path": ["b"]}]''
             = dumps (PList (requests_of ''set'' paths)))\<close>
proof -
  let ?path = "PList [PStr ''a'', PList [], PStr ''b'', PList []]"
  let ?payload = \<open>[(''data'', PStr ''[{"op": "set", "path": ["a"]}, {"op": "set", "path": ["b"]}]''),
            (''key'', PStr ''k'')]\<close>
  have t: "truthy ?path" and n: "\<forall>x. ?path \<noteq> PList [x]" by simp_all
  have e: "get_payload (vy_device ''h'' ''k'') ''set'' ?path PNone PNone PNone = Inr ?payload"
    by (simp add: run)
  from batch_paths_nonempty [OF t n e] obtain paths where "[] \<notin> set paths"
    and "map_of ?payload ''data'' = Some (PStr (dumps (PList (requests_of ''set'' paths))))"
    by blast
  then have \<open>\<exists>paths. [] \<notin> set paths
         \<and> ''[{"op": "set", "path": ["a"]}, {"op": "set", "path": ["b"]}]''
             = dumps (PList (requests_of ''set'' paths))\<close>
    by (auto simp del: dumps.simps)
  with t e show ?thesis by blast
qed

text \<open>
  Claim C8 as stated fails: for \<^verbatim>\<open>['a', []]\<close> the trailing empty nested list yields no
  batch entry; the batch is the one request with the path \<^verbatim>\<open>['a']\<close>.
\<close>

theorem trailing_empty_nested_counterexample:
  \<open>get_payload (vy_device ''h'' ''k'') ''set'' (PList [PStr ''a'', PList []]) PNone PNone PNone
    = Inr [(''data'', PStr ''[{"op": "set", "path": ["a"]}]''), (''key'', PStr ''k'')]
   \<and> batch ''set'' [PStr ''a'', PList []] = [op_request ''set'' (PList [PStr ''a''])]\<close>
  by (simp add: get_payload_def batch_def vy_device_def render)

section \<open>The optional fields and the keys of the payload\<close>

text \<open>
  Claim C5, as the code has it. With an empty (false) path the fields \<open>file\<close>, \<open>url\<close> and
  \<open>name\<close> that are given go into the serialised data object. No payload that the builder
  returns has a top-level \<open>file\<close> field, whatever the path. With a non-empty path a given
  \<open>url\<close> is a top-level field of every payload that is returned.
\<close>

theorem optional_fields_placement:
  "(\<not> truthy path \<longrightarrow>
      get_payload self op path file url name =
        Inr [(''data'', PStr (dumps (PDict ([(''op'', PStr op), (''path'', path)]
               @ (if file \<noteq> PNone then [(''file'', file)] else [])
               @ (if url \<noteq> PNone then [(''url'', url)] else [])
               @ (if name \<noteq> PNone then [(''name'', name)] else []))))),
             (''key'', PStr (apikey self))])
   \<and> (get_payload self op path file url name = Inr payload \<longrightarrow> map_of payload ''file'' = None)
   \<and> (truthy path \<and> url \<noteq> PNone \<and> get_payload self op path file url name = Inr payload \<longrightarrow>
        map_of payload ''url'' = Some url)"
proof (intro conjI impI)
  assume "\<not> truthy path"
  then show "get_payload self op path file url name =
        Inr [(''data'', PStr (dumps (PDict ([(''op'', PStr op), (''path'', path)]
               @ (if file \<noteq> PNone then [(''file'', file)] else [])
               @ (if url \<noteq> PNone then [(''url'', url)] else [])
               @ (if name \<noteq> PNone then [(''name'', name)] else []))))),
             (''key'', PStr (apikey self))]"
    by (rule get_payload_empty)
next
  assume "get_payload self op path file url name = Inr payload"
  from get_payload_Inr [OF this] show "map_of payload ''file'' = None" by auto
next
  assume a: "truthy path \<and> url \<noteq> PNone \<and> get_payload self op path file url name = Inr payload"
  show "map_of payload ''url'' = Some url"
  proof (cases "\<exists>x. path = PList [x]")
    case True
    then show ?thesis using a get_payload_single [of self op _ "file" url name] by auto
  next
    case False
    then have ns: "\<forall>x. path \<noteq> PList [x]" by blast
    show ?thesis
    proof (cases "py_iter path")
      case (Inl e)
      then show ?thesis using a get_payload_not_iterable [of path e self op "file" url name] by simp
    next
      case (Inr ps)
      then show ?thesis using a ns get_payload_batch [of path ps self op "file" url name]
        by (auto split: if_splits)
    qed
  qed
qed

theorem optional_fields_placement_witness:
  \<open>get_payload (vy_device ''h'' ''k'') ''save'' (PList []) (PStr ''/config/x'') PNone PNone
     = Inr [(''data'', PStr ''{"op": "save", "path": [], "file": "/config/x"}''), (''key'', PStr ''k'')]
   \<and> get_payload (vy_device ''h'' ''k'') ''set'' (PList [PStr ''a'', PStr ''b'']) PNone (PStr ''u'') PNone
     = Inr [(''data'', PStr ''[{"op": "set", "path": ["a", "b"]}]''), (''key'', PStr ''k''),
            (''url'', PStr ''u'')]
   \<and> map_of [(''data'', PStr ''[{"op": "set", "path": ["a", "b"]}]''), (''key'', PStr ''k''),
            (''url'', PStr ''u'')] ''url'' = Some (PStr ''u'')
   \<and> map_of [(''data'', PStr ''[{"op": "set", "path": ["a", "b"]}]''), (''key'', PStr ''k''),
            (''url'', PStr ''u'')] ''file'' = None\<close>
proof -
  let ?D = "vy_device ''h'' ''k''"
  let ?payload = \<open>[(''data'', PStr ''[{"op": "set", "path": ["a", "b"]}]''), (''key'', PStr ''k''),
            (''url'', PStr ''u'')]\<close>
  have 1: \<open>get_payload ?D ''save'' (PList []) (PStr ''/config/x'') PNone PNone
     = Inr [(''data'', PStr ''{"op": "save", "path": [], "file": "/config/x"}''), (''key'', PStr ''k'')]\<close>
    using optional_fields_placement [of "PList []" ?D "''save''" "PStr ''/config/x''" PNone PNone]
    by (simp add: vy_device_def render)
  have e: "get_payload ?D ''set'' (PList [PStr ''a'', PStr ''b'']) PNone (PStr ''u'') PNone = Inr ?payload"
    by (simp add: run)
  have 2: "map_of ?payload ''url'' = Some (PStr ''u'') \<and> map_of ?payload ''file'' = None"
    using optional_fields_placement
      [of "PList [PStr ''a'', PStr ''b'']" ?D "''set''" PNone "PStr ''u''" PNone ?payload] e
    by simp
  from 1 e 2 show ?thesis by blast
qed
text \<open>
  Claim C5 as stated fails: with the path \<^verbatim>\<open>['a']\<close> and a file the payload has the fields
  \<open>data\<close> and \<open>key\<close> only, and with the path \<^verbatim>\<open>['a', 'b']\<close> and a file the builder raises
  \<^verbatim>\<open>TypeError\<close> and returns no payload at all; with the path \<^verbatim>\<open>['a']\<close> and a name the
  serialised data object has no \<open>name\<close>.
\<close>

theorem file_top_level_counterexample:
  \<open>get_payload (vy_device ''h'' ''k'') ''load'' (PList [PStr ''a'']) (PStr ''/tmp/cfg'') PNone PNone
     = Inr [(''data'', PStr ''{"op": "load", "path": "a"}''), (''key'', PStr ''k'')]
   \<and> get_payload (vy_device ''h'' ''k'') ''load'' (PList [PStr ''a'', PStr ''b''])
       (PStr ''/tmp/cfg'') PNone PNone
     = Inl TypeError
   \<and> get_payload (vy_device ''h'' ''k'') ''delete'' (PList [PStr ''a'']) PNone PNone (PStr ''img'')
     = Inr [(''data'', PStr ''{"op": "delete", "path": "a"}''), (''key'', PStr ''k'')]\<close>
  by (simp add: get_payload_def batch_def vy_device_def render)

text \<open>
  Claim C10. Whenever the payload builder returns a payload, its keys are among \<open>data\<close>,
  \<open>key\<close> and \<open>url\<close>; \<open>file\<close> and \<open>name\<close> are no keys of it; and \<open>data\<close> is present and is
  the string that one call of \<^verbatim>\<open>json.dumps\<close> gives for an operation request or for a list
  of operation requests.
\<close>

theorem payload_top_level_keys:
  assumes "get_payload self op path file url name = Inr payload"
  shows "set (map fst payload) \<subseteq> {''data'', ''key'', ''url''}
       \<and> map_of payload ''file'' = None \<and> map_of payload ''name'' = None
       \<and> (\<exists>d. map_of payload ''data'' = Some (PStr (dumps d))
              \<and> (is_request op d \<or> (\<exists>cs. d = PList cs \<and> list_all (is_request op) cs)))"
proof -
  from get_payload_Inr [OF assms] obtain d where
    d: "is_request op d \<or> (\<exists>cs. d = PList cs \<and> list_all (is_request op) cs)"
    and p: "payload = [(''data'', PStr (dumps d)), (''key'', PStr (apikey self))]
              \<or> payload = [(''data'', PStr (dumps d)), (''key'', PStr (apikey self)), (''url'', url)]"
    by blast
  from p have "set (map fst payload) \<subseteq> {''data'', ''key'', ''url''}" by auto
  moreover from p have "map_of payload ''file'' = None" and "map_of payload ''name'' = None"
    by auto
  moreover from p have "map_of payload ''data'' = Some (PStr (dumps d))" by auto
  ultimately show ?thesis using d by blast
qed

theorem payload_top_level_keys_witness:
  \<open>get_payload (vy_device ''h'' ''k'') ''set''
       (PList [PList [PStr ''a'', PStr ''b''], PList [PStr ''c'']]) PNone (PStr ''u'') PNone
     = Inr [(''data'', PStr ''[{"op": "set", "path": ["a", "b"]}, {"op": "set", "path": ["c"]}]''),
            (''key'', PStr ''k''), (''url'', PStr ''u'')]
   \<and> set (map fst [(''data'', PStr ''[{"op": "set", "path": ["a", "b"]}, {"op": "set", "path": ["c"]}]''),
            (''key'', PStr ''k''), (''url'', PStr ''u'')]) \<subseteq> {''data'', ''key'', ''url''}\<close>
proof -
  let ?payload = \<open>[(''data'', PStr ''[{"op": "set", "path": ["a", "b"]}, {"op": "set", "path": ["c"]}]''),
            (''key'', PStr ''k''), (''url'', PStr ''u'')]\<close>
  have e: "get_payload (vy_device ''h'' ''k'') ''set''
       (PList [PList [PStr ''a'', PStr ''b''], PList [PStr ''c'']]) PNone (PStr ''u'') PNone
     = Inr ?payload"
    by (simp add: run)
  from payload_top_level_keys [OF e] have "set (map fst ?payload) \<subseteq> {''data'', ''key'', ''url''}" by blast
  with e show ?thesis by blast
qed

section \<open>The responses of the request executor\<close>

text \<open>
  Claim C4. Whenever \<^verbatim>\<open>_api_request\<close> returns a response, whatever the outcome of the
  network call was, the \<open>request\<close> field is the payload that was built with the entry
  \<open>key\<close> deleted, so \<open>key\<close> is no key of it.
\<close>

theorem response_request_without_key:
  assumes "api_request self post command op path file url name = Inr r"
  shows "''key'' \<notin> fst ` set (request r)
       \<and> (\<exists>payload. get_payload self op path file (PStr (get_url self command)) name = Inr payload
              \<and> request r = AList.delete ''key'' payload)"
proof (cases "get_payload self op path file (PStr (get_url self command)) name")
  case (Inl e)
  then show ?thesis using assms api_request_not_sent [of self op path "file" command name e post url] by simp
next
  case (Inr payload)
  then have "request r = AList.delete ''key'' payload"
    using assms api_request_sent [OF Inr, of post url] by (auto split: sum.splits prod.splits)
  moreover have "''key'' \<notin> fst ` set (AList.delete ''key'' payload)"
    by (rule delete_notin_dom)
  ultimately show ?thesis using Inr by (simp del: set_map)
qed

theorem response_request_without_key_witness:
  \<open>reboot (vy_device ''h'' ''k'') post_success now_path =
     Inr \<lparr>status = 200,
          request = [(''data'', PStr ''{"op": "reboot", "path": "now"}''),
                     (''url'', PStr ''https://h:443/reboot'')],
          result = PDict [(''x'', PInt 1)], error = PBool False\<rparr>
   \<and> reboot (vy_device ''h'' ''k'') post_bad_path now_path =
     Inr \<lparr>status = 200,
          request = [(''data'', PStr ''{"op": "reboot", "path": "now"}''),
                     (''url'', PStr ''https://h:443/reboot'')],
          result = PDict [], error = PStr ''bad path''\<rparr>
   \<and> reboot (vy_device ''h'' ''k'') post_unavailable now_path =
     Inr \<lparr>status = 503,
          request = [(''data'', PStr ''{"op": "reboot", "path": "now"}''),
                     (''url'', PStr ''https://h:443/reboot'')],
          result = PDict [], error = PStr ''http error''\<rparr>
   \<and> reboot (vy_device ''h'' ''k'') post_refused now_path =
     Inr \<lparr>status = 0,
          request = [(''data'', PStr ''{"op": "reboot", "path": "now"}''),
                     (''url'', PStr ''https://h:443/reboot'')],
          result = PDict [], error = PStr ''connection error: Connection refused''\<rparr>
   \<and> ''key'' \<notin> fst ` set [(''data'', PStr ''{"op": "reboot", "path": "now"}''),
                               (''url'', PStr ''https://h:443/reboot'')]\<close>
proof -
  let ?D = "vy_device ''h'' ''k''"
  let ?req = \<open>[(''data'', PStr ''{"op": "reboot", "path": "now"}''),
                (''url'', PStr ''https://h:443/reboot'')]\<close>
  note defs = api_request_def now_path_def delitem_def attempt_def classify_def run
  have 1: "api_request ?D post_success ''reboot'' ''reboot'' now_path PNone PNone PNone =
      Inr \<lparr>status = 200, request = ?req, result = PDict [(''x'', PInt 1)], error = PBool False\<rparr>"
    by (simp add: post_success_def defs)
  have 2: "api_request ?D post_bad_path ''reboot'' ''reboot'' now_path PNone PNone PNone =
      Inr \<lparr>status = 200, request = ?req, result = PDict [], error = PStr ''bad path''\<rparr>"
    by (simp add: post_bad_path_def defs)
  have 3: "api_request ?D post_unavailable ''reboot'' ''reboot'' now_path PNone PNone PNone =
      Inr \<lparr>status = 503, request = ?req, result = PDict [], error = PStr ''http error''\<rparr>"
    by (simp add: post_unavailable_def defs)
  have 4: "api_request ?D post_refused ''reboot'' ''reboot'' now_path PNone PNone PNone =
      Inr \<lparr>status = 0, request = ?req, result = PDict [],
           error = PStr ''connection error: Connection refused''\<rparr>"
    by (simp add: post_refused_def defs)
  from response_request_without_key [OF 4] have "''key'' \<notin> fst ` set ?req" by simp
  with 1 2 3 4 show ?thesis unfolding reboot_def by blast
qed

text \<open>
  Claim C7. Let the payload be built and the server answer. For status 200 and a JSON
  object with \<open>success\<close> false and an \<open>error\<close>, the response has status 200, the empty
  result and that error; for \<open>success\<close> true and a \<open>data\<close> field the result is that field
  and the error is \<^verbatim>\<open>False\<close>; for a status other than 200 the error is \<^verbatim>\<open>'http error'\<close> and
  the result is empty.
\<close>

theorem response_classification:
  assumes "get_payload self op path file (PStr (get_url self command)) name = Inr payload"
    and "post (get_url self command) (verify self) payload (timeout self) = Resp code body"
  shows "(code = 200 \<and> body = Json (PDict kvs) \<and> map_of kvs ''success'' = Some (PBool False)
            \<and> map_of kvs ''error'' = Some e \<longrightarrow>
          api_request self post command op path file url name =
            Inr \<lparr>status = 200, request = AList.delete ''key'' payload, result = PDict [], error = e\<rparr>)
       \<and> (code = 200 \<and> body = Json (PDict kvs) \<and> map_of kvs ''success'' = Some (PBool True)
            \<and> map_of kvs ''data'' = Some d \<longrightarrow>
          api_request self post command op path file url name =
            Inr \<lparr>status = 200, request = AList.delete ''key'' payload, result = d, error = PBool False\<rparr>)
       \<and> (code \<noteq> 200 \<longrightarrow>
          api_request self post command op path file url name =
            Inr \<lparr>status = code, request = AList.delete ''key'' payload, result = PDict [],
                 error = PStr ''http error''\<rparr>)"
  using api_request_sent [OF assms(1), of post url] assms(2)
  by (simp add: attempt_failure attempt_success attempt_http_error)

theorem response_classification_witness:
  \<open>retrieve_show_config (vy_device ''h'' ''k'') post_bad_path (PList []) =
     Inr \<lparr>status = 200,
          request = [(''data'', PStr ''{"op": "showConfig", "path": [], "url": "https://h:443/retrieve"}'')],
          result = PDict [], error = PStr ''bad path''\<rparr>
   \<and> retrieve_show_config (vy_device ''h'' ''k'') post_success (PList []) =
     Inr \<lparr>status = 200,
          request = [(''data'', PStr ''{"op": "showConfig", "path": [], "url": "https://h:443/retrieve"}'')],
          result = PDict [(''x'', PInt 1)], error = PBool False\<rparr>
   \<and> retrieve_show_config (vy_device ''h'' ''k'') post_unavailable (PList []) =
     Inr \<lparr>status = 503,
          request = [(''data'', PStr ''{"op": "showConfig", "path": [], "url": "https://h:443/retrieve"}'')],
          result = PDict [], error = PStr ''http error''\<rparr>\<close>
proof -
  let ?D = "vy_device ''h'' ''k''"
  let ?payload = \<open>[(''data'', PStr ''{"op": "showConfig", "path": [], "url": "https://h:443/retrieve"}''),
                   (''key'', PStr ''k'')]\<close>
  have p: "get_payload ?D ''showConfig'' (PList []) PNone (PStr (get_url ?D ''retrieve'')) PNone
             = Inr ?payload"
    by (simp add: run)
  have 1: "post_bad_path (get_url ?D ''retrieve'') (verify ?D) ?payload (timeout ?D)
             = Resp 200 (Json (PDict [(''success'', PBool False), (''error'', PStr ''bad path'')]))"
    by (simp add: post_bad_path_def)
  have 2: "post_success (get_url ?D ''retrieve'') (verify ?D) ?payload (timeout ?D)
             = Resp 200 (Json (PDict [(''success'', PBool True), (''data'', PDict [(''x'', PInt 1)])]))"
    by (simp add: post_success_def)
  have 3: "post_unavailable (get_url ?D ''retrieve'') (verify ?D) ?payload (timeout ?D)
             = Resp 503 NotJson"
    by (simp add: post_unavailable_def)
  show ?thesis
    using response_classification [where post = post_bad_path
        and kvs = "[(''success'', PBool False), (''error'', PStr ''bad path'')]"
        and e = "PStr ''bad path''", OF p 1]
      response_classification [where post = post_success
        and kvs = "[(''success'', PBool True), (''data'', PDict [(''x'', PInt 1)])]"
        and d = "PDict [(''x'', PInt 1)]", OF p 2]
      response_classification [where post = post_unavailable, OF p 3]
    by (simp add: retrieve_show_config_def)
qed

text \<open>
  Claim C6 fails on the code. \<^verbatim>\<open>image_add\<close> with the image address
  \<^verbatim>\<open>http://mirror/vyos.iso\<close> posts data whose \<open>url\<close> is the address of the endpoint,
  \<^verbatim>\<open>https://h:443/image\<close>: the address given by the caller is overwritten before the
  payload is built, so every address gives the same result as none.
\<close>

theorem image_add_url_replaced:
  \<open>image_add (vy_device ''h'' ''k'') post_success (PStr ''http://mirror/vyos.iso'') =
     Inr \<lparr>status = 200,
          request = [(''data'', PStr ''{"op": "add", "path": [], "url": "https://h:443/image"}'')],
          result = PDict [(''x'', PInt 1)], error = PBool False\<rparr>
   \<and> image_add self post u = image_add self post PNone\<close>
  by (simp add: image_add_def api_request_def delitem_def attempt_def classify_def
      post_success_def run)




end
